theory Spec2Isabelle
  imports Main "HOL-Library.Sublist"
begin

section \<open>Python strings and integers\<close>

text \<open>
  Python \<open>str\<close> values are modelled as \<^typ>\<open>string\<close>, one \<^typ>\<open>char\<close> per character,
  and Python \<open>int\<close> values as \<^typ>\<open>int\<close>: \<open>//\<close> and \<open>%\<close> with a positive divisor are
  \<open>div\<close> and \<open>mod\<close>, both rounding towards minus infinity.
\<close>

definition digit_char :: "nat \<Rightarrow> char" where
  "digit_char d = ''0123456789'' ! d"

fun dec_digits :: "nat \<Rightarrow> string" where
  "dec_digits n =
     (if n < 10 then [digit_char n] else dec_digits (n div 10) @ [digit_char (n mod 10)])"

declare dec_digits.simps [simp del]

definition str_int :: "int \<Rightarrow> string" where
  \<comment> \<open>\<open>str(i)\<close>, also what an f-string prints for an int\<close>
  "str_int i = (if i < 0 then CHR ''-'' # dec_digits (nat (- i)) else dec_digits (nat i))"

fun join :: "string \<Rightarrow> string list \<Rightarrow> string" where
  \<comment> \<open>\<open>sep.join(parts)\<close>\<close>
  "join sep [] = []"
| "join sep [p] = p"
| "join sep (p # q # ps) = p @ sep @ join sep (q # ps)"

definition startswith :: "string \<Rightarrow> string \<Rightarrow> bool" where
  \<comment> \<open>\<open>s.startswith(p)\<close>\<close>
  "startswith s p = (take (length p) s = p)"

definition pad_int :: "nat \<Rightarrow> int \<Rightarrow> string" where
  \<comment> \<open>a non-negative int printed in at least \<open>w\<close> digits, zero-filled, as \<open>strftime\<close> prints its fields\<close>
  "pad_int w i = replicate (w - length (str_int i)) CHR ''0'' @ str_int i"

section \<open>Exceptions, JSON values and traced computations\<close>

text \<open>
  A raised exception is a value. \<open>ValueError m\<close> stands for an instance of \<open>ValueError\<close>
  or of one of its subclasses, with \<open>str(e) = m\<close>; \<open>OtherException cls m\<close> for an instance
  of a class \<open>cls\<close> below \<open>Exception\<close> that \<open>except ValueError\<close> does not catch.
\<close>

datatype exc = ValueError string | OtherException string string

fun str_exc :: "exc \<Rightarrow> string" where
  "str_exc (ValueError m) = m"
| "str_exc (OtherException cls m) = m"

text \<open>
  The values the handlers hand to \<open>jsonify\<close>. \<open>JQuot n d\<close> is the float that Python's true
  division \<open>n / d\<close> returns, kept as the unevaluated quotient; \<open>JDecimal n k\<close> is the
  \<open>Decimal\<close> of value \<open>n / 10 ^ k\<close>.
\<close>

datatype json = JNull | JBool bool | JInt int | JStr string | JQuot int int | JDecimal int nat

type_synonym body = "(string \<times> json) list"
type_synonym response = "body \<times> nat"

text \<open>The read-only calls of the contract that the reader issues to the node.\<close>

datatype rpc =
    isActive string
  | getExpiry string
  | getRemainingTime string
  | SUBSCRIPTION_PRICE
  | SUBSCRIPTION_DURATION
  | totalSubscribers
  | totalRevenue
  | getBalance

datatype reader_op =
    Op_is_subscription_active string
  | Op_get_subscription_expiry string
  | Op_get_remaining_time string
  | Op_get_contract_stats

text \<open>
  What a request has done so far: the reader methods it has entered and the remote calls
  it has sent, both in order.
\<close>

record trace =
  invoked :: "reader_op list"
  sent :: "rpc list"

type_synonym 'a comp = "trace \<Rightarrow> (exc + 'a) \<times> trace"

definition ret :: "'a \<Rightarrow> 'a comp" where
  "ret x = (\<lambda>t. (Inr x, t))"

definition raise :: "exc \<Rightarrow> 'a comp" where
  "raise e = (\<lambda>t. (Inl e, t))"

definition lift :: "exc + 'a \<Rightarrow> 'a comp" where
  "lift r = (\<lambda>t. (r, t))"

definition bnd :: "'a comp \<Rightarrow> ('a \<Rightarrow> 'b comp) \<Rightarrow> 'b comp" where
  "bnd m f = (\<lambda>t. case m t of (Inl e, t') \<Rightarrow> (Inl e, t') | (Inr x, t') \<Rightarrow> f x t')"

definition try_except :: "'a comp \<Rightarrow> (exc \<Rightarrow> 'a comp) \<Rightarrow> 'a comp" where
  \<comment> \<open>\<open>try: m  except ... as e: h e\<close>; a handler that does not catch \<open>e\<close> raises it again\<close>
  "try_except m h = (\<lambda>t. case m t of (Inl e, t') \<Rightarrow> h e t' | (Inr x, t') \<Rightarrow> (Inr x, t'))"

definition enter :: "reader_op \<Rightarrow> unit comp" where
  "enter opn = (\<lambda>t. (Inr (), t\<lparr>invoked := invoked t @ [opn]\<rparr>))"

section \<open>The environment of a request\<close>

text \<open>
  Everything the two modules reach outside themselves: the node behind the RPC endpoint,
  the hash of the address checksum, the unit conversion of web3, and the local time zone of
  the host. The node answers a call knowing the calls sent before it, so that two equal
  calls of one request may be answered differently; an answer \<open>Inl e\<close> is the exception
  that \<open>.call()\<close> raises.
\<close>

record world =
  keccak_nibbles :: "string \<Rightarrow> nat list"
  contract_address :: string
  call_bool :: "rpc list \<Rightarrow> rpc \<Rightarrow> exc + bool"
  call_int :: "rpc list \<Rightarrow> rpc \<Rightarrow> exc + int"
  from_wei :: "int \<Rightarrow> exc + json"
  true_div :: "int \<Rightarrow> int \<Rightarrow> exc + json"
  utcoffset :: "int \<Rightarrow> int"
  range_error :: "int \<Rightarrow> exc"

definition remote_bool :: "world \<Rightarrow> rpc \<Rightarrow> bool comp" where
  "remote_bool w c = (\<lambda>t. (call_bool w (sent t) c, t\<lparr>sent := sent t @ [c]\<rparr>))"

definition remote_int :: "world \<Rightarrow> rpc \<Rightarrow> int comp" where
  "remote_int w c = (\<lambda>t. (call_int w (sent t) c, t\<lparr>sent := sent t @ [c]\<rparr>))"

section \<open>Chain Reader (blockchain.py)\<close>

text \<open>
  Modelled from the spec: the hex digits that an address is made of, and the two cases of
  the hex letters, for the normalization below.
\<close>

definition is_hex_digit :: "char \<Rightarrow> bool" where
  "is_hex_digit c = (c \<in> set ''0123456789abcdefABCDEF'')"

definition lower_hex :: "char \<Rightarrow> char" where
  "lower_hex c = (case map_of (zip ''ABCDEF'' ''abcdef'') c of Some l \<Rightarrow> l | None \<Rightarrow> c)"

definition upper_hex :: "char \<Rightarrow> char" where
  "upper_hex c = (case map_of (zip ''abcdef'' ''ABCDEF'') c of Some u \<Rightarrow> u | None \<Rightarrow> c)"

text \<open>
  Modelled from the spec: \<open>Web3.to_checksum_address\<close> is library code that is not part of the
  sources. The spec has a wallet address as a \<open>0x\<close>-prefixed string of 40 hex characters,
  case-insensitive and normalizable to a mixed-case checksum form, and has the normalization
  fail on a wrong length, on non-hex characters and on a missing prefix. The checksum form
  upper-cases the hex letter at position \<open>i\<close> exactly when nibble \<open>i\<close> of the hash of the
  lower-case digits exceeds 7; the hash (Keccak-256, 64 nibbles) is \<^const>\<open>keccak_nibbles\<close>.
\<close>

definition to_checksum_address :: "(string \<Rightarrow> nat list) \<Rightarrow> string \<Rightarrow> exc + string" where
  "to_checksum_address hash address =
     (if startswith address ''0x'' \<and> length address = 42 \<and> list_all is_hex_digit (drop 2 address)
      then
        let norm = map lower_hex (drop 2 address)
        in Inr (''0x'' @ map2 (\<lambda>c h. if h > 7 then upper_hex c else c) norm (hash norm))
      else Inl (ValueError (''Unknown format '' @ address)))"

definition invalid_wallet :: "string \<Rightarrow> exc \<Rightarrow> 'a comp" where
  \<comment> \<open>\<open>except ValueError as e: raise ValueError(f"Invalid wallet address: {wallet_address}") from e\<close>\<close>
  "invalid_wallet wallet_address e =
     (case e of
        ValueError m \<Rightarrow> raise (ValueError (''Invalid wallet address: '' @ wallet_address))
      | OtherException cls m \<Rightarrow> raise e)"

definition is_subscription_active :: "world \<Rightarrow> string \<Rightarrow> bool comp" where
  "is_subscription_active w wallet_address =
     bnd (enter (Op_is_subscription_active wallet_address)) (\<lambda>_.
     try_except
       (bnd (lift (to_checksum_address (keccak_nibbles w) wallet_address)) (\<lambda>checksum_address.
        bnd (remote_bool w (isActive checksum_address)) (\<lambda>is_active.
        ret is_active)))
       (invalid_wallet wallet_address))"

definition get_subscription_expiry :: "world \<Rightarrow> string \<Rightarrow> int comp" where
  "get_subscription_expiry w wallet_address =
     bnd (enter (Op_get_subscription_expiry wallet_address)) (\<lambda>_.
     try_except
       (bnd (lift (to_checksum_address (keccak_nibbles w) wallet_address)) (\<lambda>checksum_address.
        bnd (remote_int w (getExpiry checksum_address)) (\<lambda>expiry.
        ret expiry)))
       (invalid_wallet wallet_address))"

definition get_remaining_time :: "world \<Rightarrow> string \<Rightarrow> int comp" where
  "get_remaining_time w wallet_address =
     bnd (enter (Op_get_remaining_time wallet_address)) (\<lambda>_.
     try_except
       (bnd (lift (to_checksum_address (keccak_nibbles w) wallet_address)) (\<lambda>checksum_address.
        bnd (remote_int w (getRemainingTime checksum_address)) (\<lambda>remaining.
        ret remaining)))
       (invalid_wallet wallet_address))"

definition get_contract_stats :: "world \<Rightarrow> body comp" where
  "get_contract_stats w =
     bnd (enter Op_get_contract_stats) (\<lambda>_.
     try_except
       (bnd (remote_int w SUBSCRIPTION_PRICE) (\<lambda>price_wei.
        bnd (remote_int w SUBSCRIPTION_PRICE) (\<lambda>price.
        bnd (lift (from_wei w price)) (\<lambda>price_eth.
        bnd (remote_int w SUBSCRIPTION_DURATION) (\<lambda>duration_seconds.
        bnd (remote_int w SUBSCRIPTION_DURATION) (\<lambda>duration.
        bnd (lift (true_div w duration 86400)) (\<lambda>duration_days.
        bnd (remote_int w totalSubscribers) (\<lambda>subscribers.
        bnd (remote_int w totalRevenue) (\<lambda>revenue_wei.
        bnd (remote_int w totalRevenue) (\<lambda>revenue.
        bnd (lift (from_wei w revenue)) (\<lambda>revenue_eth.
        bnd (remote_int w getBalance) (\<lambda>balance_wei.
        bnd (remote_int w getBalance) (\<lambda>balance.
        bnd (lift (from_wei w balance)) (\<lambda>balance_eth.
        ret [(''subscription_price_wei'', JInt price_wei),
             (''subscription_price_eth'', price_eth),
             (''subscription_duration_seconds'', JInt duration_seconds),
             (''subscription_duration_days'', duration_days),
             (''total_subscribers'', JInt subscribers),
             (''total_revenue_wei'', JInt revenue_wei),
             (''total_revenue_eth'', revenue_eth),
             (''contract_balance_wei'', JInt balance_wei),
             (''contract_balance_eth'', balance_eth),
             (''contract_address'', JStr (contract_address w))]))))))))))))))
       (\<lambda>e. raise (OtherException ''Exception'' (''Error fetching contract stats: '' @ str_exc e))))"

section \<open>Gateway helpers (app.py)\<close>

definition validate_address :: "string \<Rightarrow> bool \<times> string option" where
  "validate_address address =
     (if address = [] then (False, Some ''Address is required'')
      else if \<not> startswith address ''0x'' then (False, Some ''Address must start with 0x'')
      else if length address \<noteq> 42 then (False, Some ''Address must be 42 characters long'')
      else (True, None))"

definition format_duration :: "int \<Rightarrow> string" where
  "format_duration seconds =
     (if seconds = 0 then ''Expired''
      else
        let days = seconds div 86400;
            hours = (seconds mod 86400) div 3600;
            minutes = (seconds mod 3600) div 60;
            parts = [];
            parts = (if days > 0
                     then parts @ [str_int days @ '' day'' @ (if days \<noteq> 1 then ''s'' else [])]
                     else parts);
            parts = (if hours > 0
                     then parts @ [str_int hours @ '' hour'' @ (if hours \<noteq> 1 then ''s'' else [])]
                     else parts);
            parts = (if minutes > 0
                     then parts @ [str_int minutes @ '' minute'' @ (if minutes \<noteq> 1 then ''s'' else [])]
                     else parts)
        in if parts \<noteq> [] then join '', '' parts else ''Less than a minute'')"


subsection \<open>Timestamps\<close>

text \<open>
  \<open>datetime.fromtimestamp(timestamp)\<close>, called without a time zone, gives the local time of
  the host: the calendar date and time of day that lie \<^const>\<open>utcoffset\<close> seconds after the
  UTC reading of the timestamp. It raises when the local year leaves 1..9999; which
  exception that is depends on the platform (\<^const>\<open>range_error\<close>). The calendar is the
  proleptic Gregorian one, computed from the day number counted from 1970-01-01.
\<close>

definition civil_from_days :: "int \<Rightarrow> int \<times> int \<times> int" where
  "civil_from_days z0 =
     (let z = z0 + 719468;
          era = z div 146097;
          doe = z - era * 146097;
          yoe = (doe - doe div 1460 + doe div 36524 - doe div 146096) div 365;
          doy = doe - (365 * yoe + yoe div 4 - yoe div 100);
          mp = (5 * doy + 2) div 153;
          d = doy - (153 * mp + 2) div 5 + 1;
          m = (if mp < 10 then mp + 3 else mp - 9);
          y = yoe + era * 400 + (if m \<le> 2 then 1 else 0)
      in (y, m, d))"

definition fromtimestamp :: "world \<Rightarrow> int \<Rightarrow> exc + (int \<times> int \<times> int \<times> int \<times> int \<times> int)" where
  "fromtimestamp w timestamp =
     (let local = timestamp + utcoffset w timestamp;
          (y, m, d) = civil_from_days (local div 86400);
          sod = local mod 86400
      in if y < 1 \<or> 9999 < y then Inl (range_error w timestamp)
         else Inr (y, m, d, sod div 3600, (sod mod 3600) div 60, sod mod 60))"

definition strftime :: "int \<times> int \<times> int \<times> int \<times> int \<times> int \<Rightarrow> string" where
  \<comment> \<open>\<open>dt.strftime('%Y-%m-%d %H:%M:%S UTC')\<close>\<close>
  "strftime dt =
     (case dt of (y, m, d, hh, mm, ss) \<Rightarrow>
        pad_int 4 y @ ''-'' @ pad_int 2 m @ ''-'' @ pad_int 2 d @ '' '' @
        pad_int 2 hh @ '':'' @ pad_int 2 mm @ '':'' @ pad_int 2 ss @ '' UTC'')"

definition format_timestamp :: "world \<Rightarrow> int \<Rightarrow> exc + string" where
  "format_timestamp w timestamp =
     (if timestamp = 0 then Inr ''Never subscribed''
      else case fromtimestamp w timestamp of
             Inl e \<Rightarrow> Inl e
           | Inr dt \<Rightarrow> Inr (strftime dt))"

section \<open>Routes (app.py)\<close>

definition error_body :: "string option \<Rightarrow> body" where
  \<comment> \<open>\<open>{'error': error_msg}\<close>\<close>
  "error_body error_msg = [(''error'', case error_msg of None \<Rightarrow> JNull | Some m \<Rightarrow> JStr m)]"

definition handle_errors :: "response comp \<Rightarrow> trace \<Rightarrow> response \<times> trace" where
  \<comment> \<open>the \<open>except ValueError\<close> and \<open>except Exception\<close> clauses of the wallet routes\<close>
  "handle_errors m t =
     (case m t of
        (Inr r, t') \<Rightarrow> (r, t')
      | (Inl (ValueError msg), t') \<Rightarrow> ((error_body (Some msg), 400), t')
      | (Inl (OtherException cls msg), t') \<Rightarrow> ((error_body (Some ''Internal server error''), 500), t'))"

definition get_subscription_status :: "world \<Rightarrow> string \<Rightarrow> trace \<Rightarrow> response \<times> trace" where
  "get_subscription_status w wallet_address =
     handle_errors
       (case validate_address wallet_address of
          (False, error_msg) \<Rightarrow> ret (error_body error_msg, 400)
        | (True, error_msg) \<Rightarrow>
            bnd (is_subscription_active w wallet_address) (\<lambda>is_active.
            bnd (get_subscription_expiry w wallet_address) (\<lambda>expiry_timestamp.
            bnd (get_remaining_time w wallet_address) (\<lambda>remaining_seconds.
            bnd (lift (format_timestamp w expiry_timestamp)) (\<lambda>expiry_date.
            ret ([(''wallet_address'', JStr wallet_address),
                  (''is_active'', JBool is_active),
                  (''expiry_timestamp'', JInt expiry_timestamp),
                  (''expiry_date'', JStr expiry_date),
                  (''remaining_seconds'', JInt remaining_seconds),
                  (''remaining_time'', JStr (format_duration remaining_seconds))], 200))))))"

definition get_subscription_expiry_route :: "world \<Rightarrow> string \<Rightarrow> trace \<Rightarrow> response \<times> trace" where
  \<comment> \<open>\<open>get_subscription_expiry\<close> of app.py, the handler of \<open>/expiry/<wallet_address>\<close>\<close>
  "get_subscription_expiry_route w wallet_address =
     handle_errors
       (case validate_address wallet_address of
          (False, error_msg) \<Rightarrow> ret (error_body error_msg, 400)
        | (True, error_msg) \<Rightarrow>
            bnd (get_subscription_expiry w wallet_address) (\<lambda>expiry_timestamp.
            bnd (lift (format_timestamp w expiry_timestamp)) (\<lambda>expiry_date.
            ret ([(''wallet_address'', JStr wallet_address),
                  (''expiry_timestamp'', JInt expiry_timestamp),
                  (''expiry_date'', JStr expiry_date)], 200))))"

definition get_remaining_time_route :: "world \<Rightarrow> string \<Rightarrow> trace \<Rightarrow> response \<times> trace" where
  \<comment> \<open>\<open>get_remaining_time\<close> of app.py, the handler of \<open>/remaining/<wallet_address>\<close>\<close>
  "get_remaining_time_route w wallet_address =
     handle_errors
       (case validate_address wallet_address of
          (False, error_msg) \<Rightarrow> ret (error_body error_msg, 400)
        | (True, error_msg) \<Rightarrow>
            bnd (get_remaining_time w wallet_address) (\<lambda>remaining_seconds.
            ret ([(''wallet_address'', JStr wallet_address),
                  (''remaining_seconds'', JInt remaining_seconds),
                  (''remaining_time'', JStr (format_duration remaining_seconds))], 200)))"

definition get_contract_stats_route :: "world \<Rightarrow> trace \<Rightarrow> response \<times> trace" where
  \<comment> \<open>\<open>get_contract_stats\<close> of app.py, the handler of \<open>/stats\<close>: one \<open>except Exception\<close> clause;
      \<open>jsonify\<close> is taken to accept the statistics\<close>
  "get_contract_stats_route w t =
     (case get_contract_stats w t of
        (Inr stats, t') \<Rightarrow> ((stats, 200), t')
      | (Inl e, t') \<Rightarrow> ((error_body (Some ''Internal server error''), 500), t'))"

definition start :: trace where
  \<comment> \<open>the trace of a request that has done nothing yet\<close>
  "start = \<lparr>invoked = [], sent = []\<rparr>"

section \<open>The duration format as the spec words it\<close>

text \<open>
  The spec's wording of the duration format, to compare with \<^const>\<open>format_duration\<close>:
  days, hours and minutes by floor division, each nonzero component printed with its unit,
  plural unless the count is 1, the components joined with a comma and a space.
\<close>

definition component :: "int \<Rightarrow> string \<Rightarrow> string" where
  "component n unit = str_int n @ '' '' @ unit @ (if n = 1 then [] else ''s'')"

definition spec_text :: "int \<Rightarrow> int \<Rightarrow> int \<Rightarrow> string" where
  "spec_text d h m =
     (let comps = filter (\<lambda>(n, unit). n \<noteq> 0) [(d, ''day''), (h, ''hour''), (m, ''minute'')]
      in if comps = [] then ''Less than a minute''
         else join '', '' (map (\<lambda>(n, unit). component n unit) comps))"

definition spec_format_duration :: "int \<Rightarrow> string" where
  "spec_format_duration s =
     (if s = 0 then ''Expired''
      else spec_text (s div 86400) (s div 3600 mod 24) (s div 60 mod 60))"

text \<open>The part of \<^const>\<open>format_duration\<close> after the three divisions, on their results.\<close>

definition duration_text :: "int \<Rightarrow> int \<Rightarrow> int \<Rightarrow> string" where
  "duration_text days hours minutes =
     (let parts = [];
          parts = (if days > 0
                   then parts @ [str_int days @ '' day'' @ (if days \<noteq> 1 then ''s'' else [])]
                   else parts);
          parts = (if hours > 0
                   then parts @ [str_int hours @ '' hour'' @ (if hours \<noteq> 1 then ''s'' else [])]
                   else parts);
          parts = (if minutes > 0
                   then parts @ [str_int minutes @ '' minute'' @ (if minutes \<noteq> 1 then ''s'' else [])]
                   else parts)
      in if parts \<noteq> [] then join '', '' parts else ''Less than a minute'')"

section \<open>Vocabulary of the error claims\<close>

text \<open>
  The two error kinds of the reader, as the code raises them. \<open>InvalidAddress a\<close> is the
  \<open>ValueError\<close> that names the address \<open>a\<close>; \<open>RemoteCallFailure cause\<close> is the plain
  \<open>Exception\<close> whose text ends with the text of the exception \<open>cause\<close> that it wraps.
\<close>

definition InvalidAddress :: "string \<Rightarrow> exc" where
  "InvalidAddress wallet_address = ValueError (''Invalid wallet address: '' @ wallet_address)"

definition RemoteCallFailure :: "exc \<Rightarrow> exc" where
  "RemoteCallFailure cause =
     OtherException ''Exception'' (''Error fetching contract stats: '' @ str_exc cause)"

text \<open>
  The exception \<open>e\<close> was raised while a list of calls was issued in order after the calls
  \<open>before\<close>: it is the answer of the node to one of them, or it is raised by the conversion
  (to ether, or to days) of a value that one of them returned.
\<close>

fun raised_among :: "world \<Rightarrow> rpc list \<Rightarrow> rpc list \<Rightarrow> exc \<Rightarrow> bool" where
  "raised_among w before [] e = False"
| "raised_among w before (c # cs) e =
     (call_int w before c = Inl e \<or>
      (case call_int w before c of
         Inl x \<Rightarrow> False
       | Inr n \<Rightarrow> from_wei w n = Inl e \<or> true_div w n 86400 = Inl e) \<or>
      raised_among w (before @ [c]) cs e)"

text \<open>What the \<open>except ValueError\<close> clause of a wallet operation makes of the answer of the node.\<close>

definition wrap_invalid :: "string \<Rightarrow> exc + 'a \<Rightarrow> exc + 'a" where
  "wrap_invalid a r =
     (case r of
        Inr v \<Rightarrow> Inr v
      | Inl (ValueError m) \<Rightarrow> Inl (ValueError (''Invalid wallet address: '' @ a))
      | Inl (OtherException cls m) \<Rightarrow> Inl (OtherException cls m))"

text \<open>The nine remote reads of \<open>get_contract_stats\<close>, in the order the dict literal issues them.\<close>

definition stats_calls :: "rpc list" where
  "stats_calls =
     [SUBSCRIPTION_PRICE, SUBSCRIPTION_PRICE, SUBSCRIPTION_DURATION, SUBSCRIPTION_DURATION,
      totalSubscribers, totalRevenue, totalRevenue, getBalance, getBalance]"

text \<open>Some call of a list, issued in order after the calls \<open>before\<close>, is answered by an exception.\<close>

fun some_call_fails :: "world \<Rightarrow> rpc list \<Rightarrow> rpc list \<Rightarrow> bool" where
  "some_call_fails w before [] = False"
| "some_call_fails w before (c # cs) =
     (isl (call_int w before c) \<or> some_call_fails w (before @ [c]) cs)"

text \<open>
  Two spellings of one address: both carry the prefix, both have 42 characters, and they
  agree once the hex letters are lower-cased.
\<close>

definition same_address :: "string \<Rightarrow> string \<Rightarrow> bool" where
  "same_address a1 a2 =
     (prefix ''0x'' a1 \<and> prefix ''0x'' a2 \<and> length a1 = 42 \<and> length a2 = 42 \<and>
      map lower_hex a1 = map lower_hex a2)"

text \<open>
  Two bodies that agree except where each quotes the spelling its caller sent: in the
  leading \<open>wallet_address\<close> field, or in the message of an invalid address.
\<close>

definition same_but_echo :: "string \<Rightarrow> string \<Rightarrow> body \<Rightarrow> body \<Rightarrow> bool" where
  "same_but_echo a1 a2 b1 b2 =
     (b1 = b2 \<or>
      (b1 = (''wallet_address'', JStr a1) # tl b1 \<and> b2 = (''wallet_address'', JStr a2) # tl b1) \<or>
      (b1 = [(''error'', JStr (''Invalid wallet address: '' @ a1))] \<and>
       b2 = [(''error'', JStr (''Invalid wallet address: '' @ a2))]))"

section \<open>A sample deployment\<close>

text \<open>
  A node with one subscriber, on a host whose local time is five and a half hours ahead
  of UTC. Its hash agrees with Keccak-256 on the one address that the examples use.
\<close>

definition sample_keccak :: "string \<Rightarrow> nat list" where
  "sample_keccak s =
     (if s = ''5aaeb6053f3e94c9b9a09f33669435e7ef1beaed''
      then [13, 3, 8, 5, 6, 5, 0, 12, 14, 8, 15, 13, 12, 6, 13, 11,
            7, 14, 14, 3, 10, 0, 9, 1, 13, 3, 4, 8, 1, 4, 13, 11,
            12, 4, 12, 14, 1, 8, 2, 1, 9, 15, 15, 10, 14, 5, 2, 1,
            8, 2, 14, 15, 15, 15, 4, 0, 3, 4, 13, 7, 0, 7, 14, 5]
      else replicate 64 0)"

definition sample_from_wei :: "int \<Rightarrow> exc + json" where
  \<comment> \<open>\<open>from_wei(number, 'ether')\<close> of web3\<close>
  "sample_from_wei number =
     (if number = 0 then Inr (JInt 0)
      else if number < 1 \<or> 2 ^ 256 - 1 < number
      then Inl (ValueError ''value must be between 1 and 2**256 - 1'')
      else Inr (JDecimal number 18))"

definition sample_answer :: "rpc \<Rightarrow> int" where
  "sample_answer c =
     (case c of
        isActive a \<Rightarrow> 1
      | getExpiry a \<Rightarrow> 1737216000
      | getRemainingTime a \<Rightarrow> 90000
      | SUBSCRIPTION_PRICE \<Rightarrow> 1000000000000000
      | SUBSCRIPTION_DURATION \<Rightarrow> 2592000
      | totalSubscribers \<Rightarrow> 42
      | totalRevenue \<Rightarrow> 42000000000000000
      | getBalance \<Rightarrow> 42000000000000000)"

definition sample_world :: world where
  "sample_world =
     \<lparr>keccak_nibbles = sample_keccak,
      contract_address = ''0x5aAeb6053F3E94C9b9A09f33669435E7Ef1BeAed'',
      call_bool = (\<lambda>before c. Inr True),
      call_int = (\<lambda>before c. Inr (sample_answer c)),
      from_wei = sample_from_wei,
      true_div = (\<lambda>n d. Inr (JQuot n d)),
      utcoffset = (\<lambda>timestamp. 19800),
      range_error = (\<lambda>timestamp. ValueError ''year is out of range'')\<rparr>"

definition offline_world :: world where
  \<comment> \<open>the same deployment with the node unreachable: every remote read raises a transport error\<close>
  "offline_world =
     sample_world
       \<lparr>call_bool := (\<lambda>before c. Inl (OtherException ''ConnectionError'' ''Connection refused'')),
        call_int := (\<lambda>before c. Inl (OtherException ''ConnectionError'' ''Connection refused''))\<rparr>"

definition lower_spelling :: string where
  "lower_spelling = ''0x5aaeb6053f3e94c9b9a09f33669435e7ef1beaed''"

definition checksum_spelling :: string where
  "checksum_spelling = ''0x5aAeb6053F3E94C9b9A09f33669435E7Ef1BeAed''"

section \<open>Strings and arithmetic: basic facts\<close>

lemma startswith_prefix: "startswith s p = prefix p s"
proof
  assume "startswith s p"
  then have "s = p @ drop (length p) s"
    unfolding startswith_def by (metis append_take_drop_id)
  then show "prefix p s" by (metis prefixI)
next
  assume "prefix p s"
  then obtain r where "s = p @ r" by (auto simp: prefix_def)
  then show "startswith s p" by (simp add: startswith_def)
qed

lemma day_split: "s mod 86400 = 3600 * (s div 3600 mod 24) + s mod (3600::int)"
proof -
  have "s mod (3600 * 24) = 3600 * (s div 3600 mod 24) + s mod 3600"
    by (rule zmod_zmult2_eq) simp
  then show ?thesis by simp
qed

lemma hour_split: "s mod 3600 = 60 * (s div 60 mod 60) + s mod (60::int)"
proof -
  have "s mod (60 * 60) = 60 * (s div 60 mod 60) + s mod 60"
    by (rule zmod_zmult2_eq) simp
  then show ?thesis by simp
qed

lemma hours_alt: "(s mod 86400) div 3600 = (s div 3600) mod (24::int)"
  using day_split [of s] by simp

lemma minutes_alt: "(s mod 3600) div 60 = (s div 60) mod (60::int)"
  using hour_split [of s] by simp

lemma components_sum:
  "s = 86400 * (s div 86400) + 3600 * (s div 3600 mod 24) + 60 * (s div 60 mod 60) + s mod (60::int)"
proof -
  have "s = 86400 * (s div 86400) + s mod 86400" by simp
  then show ?thesis using day_split [of s] hour_split [of s] by linarith
qed

section \<open>The duration format\<close>

lemma format_duration_text:
  "format_duration seconds =
     (if seconds = 0 then ''Expired''
      else duration_text (seconds div 86400) ((seconds mod 86400) div 3600) ((seconds mod 3600) div 60))"
  unfolding format_duration_def duration_text_def Let_def by (rule refl)

lemma duration_text_spec:
  assumes "0 \<le> d" and "0 \<le> h" and "0 \<le> m"
  shows "duration_text d h m = spec_text d h m"
proof -
  have "(0 < d) = (d \<noteq> 0)" and "(0 < h) = (h \<noteq> 0)" and "(0 < m) = (m \<noteq> 0)"
    using assms by linarith+
  then show ?thesis
    unfolding duration_text_def spec_text_def Let_def
    by (cases "d = 0"; cases "h = 0"; cases "m = 0") (simp_all add: component_def)
qed

lemma space_in_duration_text: "CHR '' '' \<in> set (duration_text d h m)"
  unfolding duration_text_def Let_def
  by (cases "0 < d"; cases "0 < h"; cases "0 < m") simp_all

lemma duration_text_no_days:
  "\<not> 0 < d \<Longrightarrow> duration_text d h m = duration_text 0 h m"
  by (simp add: duration_text_def)

text \<open>
  C4. On a non-negative number of seconds \<open>format_duration\<close> is the format the spec words:
  \<open>Expired\<close> for 0, otherwise the floor-division components (which add up to the input less
  the discarded seconds), each nonzero one with its unit, singular exactly at 1, joined
  with a comma and a space, and \<open>Less than a minute\<close> when every component is zero; with the
  five values the spec lists.
\<close>

theorem format_duration_nonneg:
  assumes "0 \<le> s"
  shows "format_duration s = spec_format_duration s \<and>
         s = 86400 * (s div 86400) + 3600 * (s div 3600 mod 24) + 60 * (s div 60 mod 60) + s mod 60 \<and>
         format_duration 0 = ''Expired'' \<and>
         format_duration 59 = ''Less than a minute'' \<and>
         format_duration 90 = ''1 minute'' \<and>
         format_duration 3661 = ''1 hour, 1 minute'' \<and>
         format_duration 90000 = ''1 day, 1 hour''"
proof -
  have d: "0 \<le> s div 86400" using assms by (simp add: pos_imp_zdiv_nonneg_iff)
  have h: "0 \<le> s div 3600 mod 24" and m: "0 \<le> s div 60 mod 60" by simp_all
  have "format_duration s = spec_format_duration s"
    unfolding format_duration_text spec_format_duration_def hours_alt minutes_alt
    using duration_text_spec [OF d h m] by simp
  moreover have "format_duration 0 = ''Expired''"
    by (simp add: format_duration_def)
  moreover have "format_duration 59 = ''Less than a minute''"
    by (simp add: format_duration_def)
  moreover have "format_duration 90 = ''1 minute''"
    by (simp add: format_duration_def Let_def) (simp add: str_int_def dec_digits.simps digit_char_def)
  moreover have "format_duration 3661 = ''1 hour, 1 minute''"
    by (simp add: format_duration_def Let_def) (simp add: str_int_def dec_digits.simps digit_char_def)
  moreover have "format_duration 90000 = ''1 day, 1 hour''"
    by (simp add: format_duration_def Let_def) (simp add: str_int_def dec_digits.simps digit_char_def)
  ultimately show ?thesis using components_sum [of s] by blast
qed

theorem format_duration_nonneg_witness:
  "(0::int) \<le> 183900 \<and> format_duration 183900 = spec_format_duration 183900 \<and>
   spec_format_duration 183900 = ''2 days, 3 hours, 5 minutes''"
proof -
  have "spec_format_duration 183900 = ''2 days, 3 hours, 5 minutes''"
    by (simp add: spec_format_duration_def spec_text_def)
       (simp add: component_def str_int_def dec_digits.simps digit_char_def)
  then show ?thesis using format_duration_nonneg [of 183900] by simp
qed


text \<open>
  C9, as first stated: a negative input is printed with its negative day count, so that
  \<open>-1\<close> would give \<open>-1 days, 23 hours, 59 minutes\<close>. The code appends a component only when
  it is positive, and prints \<open>-1\<close> as \<open>23 hours, 59 minutes\<close>.
\<close>

theorem format_duration_negative_counterexample:
  "format_duration (- 1) = ''23 hours, 59 minutes'' \<and>
   format_duration (- 1) \<noteq> ''-1 days, 23 hours, 59 minutes''"
proof -
  have "format_duration (- 1) = ''23 hours, 59 minutes''"
    by (simp add: format_duration_def Let_def) (simp add: str_int_def dec_digits.simps digit_char_def)
  then show ?thesis by simp
qed

text \<open>
  C9, amended. On every integer \<open>format_duration\<close> returns \<open>Expired\<close> exactly when the input
  is 0. A negative input is not reported as expired: it is decomposed by floor division
  and printed as its hours and minutes only, in the spec's format with the day component
  left out, the negative day count never being printed.
\<close>

theorem format_duration_expired_iff:
  "(format_duration s = ''Expired'') = (s = 0) \<and>
   (s < 0 \<longrightarrow> format_duration s = spec_text 0 (s div 3600 mod 24) (s div 60 mod 60))"
proof -
  have "(format_duration s = ''Expired'') = (s = 0)"
  proof
    assume e: "format_duration s = ''Expired''"
    show "s = 0"
    proof (rule ccontr)
      assume "s \<noteq> 0"
      then have "CHR '' '' \<in> set (format_duration s)"
        by (simp add: format_duration_text space_in_duration_text)
      with e show False by simp
    qed
  next
    assume "s = 0"
    then show "format_duration s = ''Expired''" by (simp add: format_duration_def)
  qed
  moreover have "format_duration s = spec_text 0 (s div 3600 mod 24) (s div 60 mod 60)" if neg: "s < 0"
  proof -
    have nd: "\<not> 0 < s div 86400"
      using neg by (simp add: div_neg_pos_less0 not_less order.strict_implies_order)
    have "format_duration s = duration_text (s div 86400) (s div 3600 mod 24) (s div 60 mod 60)"
      using neg by (simp add: format_duration_text hours_alt minutes_alt)
    also have "\<dots> = duration_text 0 (s div 3600 mod 24) (s div 60 mod 60)"
      using nd by (rule duration_text_no_days)
    also have "\<dots> = spec_text 0 (s div 3600 mod 24) (s div 60 mod 60)"
      by (rule duration_text_spec) simp_all
    finally show ?thesis .
  qed
  ultimately show ?thesis by blast
qed

theorem format_duration_expired_iff_witness:
  "(- 86401 :: int) < 0 \<and> format_duration (- 86401) = ''23 hours, 59 minutes'' \<and>
   format_duration (- 86401) \<noteq> ''Expired''"
proof -
  have "spec_text 0 ((- 86401) div 3600 mod 24) ((- 86401) div 60 mod 60) = ''23 hours, 59 minutes''"
    by (simp add: spec_text_def) (simp add: component_def str_int_def dec_digits.simps digit_char_def)
  then show ?thesis using format_duration_expired_iff [of "- 86401"] by simp
qed

section \<open>Address validation\<close>

text \<open>
  C5. \<open>validate_address\<close> applies three checks in order and reports the first that fails:
  the empty string is rejected with \<open>Address is required\<close>, a non-empty string without the
  prefix \<open>0x\<close> with \<open>Address must start with 0x\<close>, a prefixed string whose length is not 42
  with \<open>Address must be 42 characters long\<close>; every other string is accepted.
\<close>

theorem validate_address_checks:
  "(a = [] \<longrightarrow> validate_address a = (False, Some ''Address is required'')) \<and>
   (a \<noteq> [] \<and> \<not> prefix ''0x'' a \<longrightarrow>
      validate_address a = (False, Some ''Address must start with 0x'')) \<and>
   (prefix ''0x'' a \<and> length a \<noteq> 42 \<longrightarrow>
      validate_address a = (False, Some ''Address must be 42 characters long'')) \<and>
   (prefix ''0x'' a \<and> length a = 42 \<longrightarrow> validate_address a = (True, None))"
proof -
  have "prefix ''0x'' a \<Longrightarrow> a \<noteq> []" by auto
  then show ?thesis
    unfolding validate_address_def startswith_prefix by auto
qed

theorem validate_address_checks_witness:
  "validate_address [] = (False, Some ''Address is required'') \<and>
   validate_address ''5aAeb6053F3E94C9b9A09f33669435E7Ef1BeAed'' =
     (False, Some ''Address must start with 0x'') \<and>
   validate_address ''0x5aAeb6053F3E94C9b9A09f33669435E7Ef1BeAe'' =
     (False, Some ''Address must be 42 characters long'') \<and>
   validate_address ''0x5aAeb6053F3E94C9b9A09f33669435E7Ef1BeAed'' = (True, None)"
  using validate_address_checks [of "[]"]
    validate_address_checks [of "''5aAeb6053F3E94C9b9A09f33669435E7Ef1BeAed''"]
    validate_address_checks [of "''0x5aAeb6053F3E94C9b9A09f33669435E7Ef1BeAe''"]
    validate_address_checks [of "''0x5aAeb6053F3E94C9b9A09f33669435E7Ef1BeAed''"]
  by simp

section \<open>The reader, one call at a time\<close>

lemma to_checksum_address_error:
  "to_checksum_address h a = Inl e \<Longrightarrow> e = ValueError (''Unknown format '' @ a)"
  by (auto simp: to_checksum_address_def Let_def split: if_splits)

lemma is_subscription_active_eval:
  "is_subscription_active w a t =
     (case to_checksum_address (keccak_nibbles w) a of
        Inl e \<Rightarrow> (Inl (ValueError (''Invalid wallet address: '' @ a)),
                  t\<lparr>invoked := invoked t @ [Op_is_subscription_active a]\<rparr>)
      | Inr c \<Rightarrow> (wrap_invalid a (call_bool w (sent t) (isActive c)),
                  t\<lparr>invoked := invoked t @ [Op_is_subscription_active a],
                    sent := sent t @ [isActive c]\<rparr>))"
  by (auto simp: is_subscription_active_def bnd_def enter_def try_except_def lift_def remote_bool_def
        ret_def raise_def invalid_wallet_def wrap_invalid_def
      dest: to_checksum_address_error split: sum.splits exc.splits)

lemma get_subscription_expiry_eval:
  "get_subscription_expiry w a t =
     (case to_checksum_address (keccak_nibbles w) a of
        Inl e \<Rightarrow> (Inl (ValueError (''Invalid wallet address: '' @ a)),
                  t\<lparr>invoked := invoked t @ [Op_get_subscription_expiry a]\<rparr>)
      | Inr c \<Rightarrow> (wrap_invalid a (call_int w (sent t) (getExpiry c)),
                  t\<lparr>invoked := invoked t @ [Op_get_subscription_expiry a],
                    sent := sent t @ [getExpiry c]\<rparr>))"
  by (auto simp: get_subscription_expiry_def bnd_def enter_def try_except_def lift_def remote_int_def
        ret_def raise_def invalid_wallet_def wrap_invalid_def
      dest: to_checksum_address_error split: sum.splits exc.splits)

lemma get_remaining_time_eval:
  "get_remaining_time w a t =
     (case to_checksum_address (keccak_nibbles w) a of
        Inl e \<Rightarrow> (Inl (ValueError (''Invalid wallet address: '' @ a)),
                  t\<lparr>invoked := invoked t @ [Op_get_remaining_time a]\<rparr>)
      | Inr c \<Rightarrow> (wrap_invalid a (call_int w (sent t) (getRemainingTime c)),
                  t\<lparr>invoked := invoked t @ [Op_get_remaining_time a],
                    sent := sent t @ [getRemainingTime c]\<rparr>))"
  by (auto simp: get_remaining_time_def bnd_def enter_def try_except_def lift_def remote_int_def
        ret_def raise_def invalid_wallet_def wrap_invalid_def
      dest: to_checksum_address_error split: sum.splits exc.splits)

lemma rejected_route:
  "validate_address a = (False, msg) \<Longrightarrow>
     get_subscription_status w a t = ((error_body msg, 400), t) \<and>
     get_subscription_expiry_route w a t = ((error_body msg, 400), t) \<and>
     get_remaining_time_route w a t = ((error_body msg, 400), t)"
  by (simp add: get_subscription_status_def get_subscription_expiry_route_def
        get_remaining_time_route_def handle_errors_def ret_def)

section \<open>The sample deployment, evaluated\<close>

lemma sample_checksum: "to_checksum_address sample_keccak lower_spelling = Inr checksum_spelling"
  by (simp add: to_checksum_address_def lower_spelling_def checksum_spelling_def startswith_def
      is_hex_digit_def Let_def)
     (simp add: lower_hex_def upper_hex_def sample_keccak_def)

lemma sample_checksum_fixed:
  "to_checksum_address sample_keccak checksum_spelling = Inr checksum_spelling"
  by (simp add: to_checksum_address_def checksum_spelling_def startswith_def
      is_hex_digit_def Let_def)
     (simp add: lower_hex_def upper_hex_def sample_keccak_def)

lemma civil_from_days_sample: "civil_from_days 20106 = (2025, 1, 18)"
  unfolding civil_from_days_def Let_def by simp

lemma fromtimestamp_sample:
  "fromtimestamp sample_world 1737216000 = Inr (2025, 1, 18, 21, 30, 0)"
proof -
  have u: "utcoffset sample_world 1737216000 = 19800" by (simp add: sample_world_def)
  show ?thesis
    unfolding fromtimestamp_def Let_def u by (simp add: civil_from_days_sample)
qed

lemma strftime_sample: "strftime (2025, 1, 18, 21, 30, 0) = ''2025-01-18 21:30:00 UTC''"
  unfolding strftime_def pad_int_def str_int_def
  by (simp add: dec_digits.simps digit_char_def)

lemma format_timestamp_sample:
  "format_timestamp sample_world 1737216000 = Inr ''2025-01-18 21:30:00 UTC''"
  by (simp add: format_timestamp_def fromtimestamp_sample strftime_sample)

section \<open>The wallet routes on an accepted address\<close>

lemma accepted_remaining:
  "validate_address a = (True, msg) \<Longrightarrow>
   get_remaining_time_route w a t =
     (case to_checksum_address (keccak_nibbles w) a of
        Inl e \<Rightarrow> (([(''error'', JStr (''Invalid wallet address: '' @ a))], 400),
                  t\<lparr>invoked := invoked t @ [Op_get_remaining_time a]\<rparr>)
      | Inr c \<Rightarrow>
          (case call_int w (sent t) (getRemainingTime c) of
             Inr v \<Rightarrow> ([(''wallet_address'', JStr a), (''remaining_seconds'', JInt v),
                         (''remaining_time'', JStr (format_duration v))], 200)
           | Inl (ValueError m) \<Rightarrow> ([(''error'', JStr (''Invalid wallet address: '' @ a))], 400)
           | Inl (OtherException cls m) \<Rightarrow> ([(''error'', JStr ''Internal server error'')], 500),
           t\<lparr>invoked := invoked t @ [Op_get_remaining_time a],
             sent := sent t @ [getRemainingTime c]\<rparr>))"
  by (simp add: get_remaining_time_route_def handle_errors_def bnd_def ret_def
        get_remaining_time_eval wrap_invalid_def error_body_def
      split: sum.splits exc.splits)

lemma accepted_expiry:
  "validate_address a = (True, msg) \<Longrightarrow>
   get_subscription_expiry_route w a t =
     (case to_checksum_address (keccak_nibbles w) a of
        Inl e \<Rightarrow> (([(''error'', JStr (''Invalid wallet address: '' @ a))], 400),
                  t\<lparr>invoked := invoked t @ [Op_get_subscription_expiry a]\<rparr>)
      | Inr c \<Rightarrow>
          (case call_int w (sent t) (getExpiry c) of
             Inr v \<Rightarrow>
               (case format_timestamp w v of
                  Inr d \<Rightarrow> ([(''wallet_address'', JStr a), (''expiry_timestamp'', JInt v),
                              (''expiry_date'', JStr d)], 200)
                | Inl (ValueError m) \<Rightarrow> ([(''error'', JStr m)], 400)
                | Inl (OtherException cls m) \<Rightarrow> ([(''error'', JStr ''Internal server error'')], 500))
           | Inl (ValueError m) \<Rightarrow> ([(''error'', JStr (''Invalid wallet address: '' @ a))], 400)
           | Inl (OtherException cls m) \<Rightarrow> ([(''error'', JStr ''Internal server error'')], 500),
           t\<lparr>invoked := invoked t @ [Op_get_subscription_expiry a],
             sent := sent t @ [getExpiry c]\<rparr>))"
  by (simp add: get_subscription_expiry_route_def handle_errors_def bnd_def ret_def lift_def
        get_subscription_expiry_eval wrap_invalid_def error_body_def
      split: sum.splits exc.splits)

lemma accepted_status:
  "validate_address a = (True, msg) \<Longrightarrow>
   get_subscription_status w a t =
     (case to_checksum_address (keccak_nibbles w) a of
        Inl e \<Rightarrow> (([(''error'', JStr (''Invalid wallet address: '' @ a))], 400),
                  t\<lparr>invoked := invoked t @ [Op_is_subscription_active a]\<rparr>)
      | Inr c \<Rightarrow>
          (case call_bool w (sent t) (isActive c) of
             Inl (ValueError m) \<Rightarrow>
               (([(''error'', JStr (''Invalid wallet address: '' @ a))], 400),
                t\<lparr>invoked := invoked t @ [Op_is_subscription_active a],
                  sent := sent t @ [isActive c]\<rparr>)
           | Inl (OtherException cls m) \<Rightarrow>
               (([(''error'', JStr ''Internal server error'')], 500),
                t\<lparr>invoked := invoked t @ [Op_is_subscription_active a],
                  sent := sent t @ [isActive c]\<rparr>)
           | Inr active \<Rightarrow>
          (case call_int w (sent t @ [isActive c]) (getExpiry c) of
             Inl (ValueError m) \<Rightarrow>
               (([(''error'', JStr (''Invalid wallet address: '' @ a))], 400),
                t\<lparr>invoked := invoked t @ [Op_is_subscription_active a, Op_get_subscription_expiry a],
                  sent := sent t @ [isActive c, getExpiry c]\<rparr>)
           | Inl (OtherException cls m) \<Rightarrow>
               (([(''error'', JStr ''Internal server error'')], 500),
                t\<lparr>invoked := invoked t @ [Op_is_subscription_active a, Op_get_subscription_expiry a],
                  sent := sent t @ [isActive c, getExpiry c]\<rparr>)
           | Inr expiry \<Rightarrow>
          (case call_int w (sent t @ [isActive c, getExpiry c]) (getRemainingTime c) of
             Inl (ValueError m) \<Rightarrow> ([(''error'', JStr (''Invalid wallet address: '' @ a))], 400)
           | Inl (OtherException cls m) \<Rightarrow> ([(''error'', JStr ''Internal server error'')], 500)
           | Inr remaining \<Rightarrow>
               (case format_timestamp w expiry of
                  Inl (ValueError m) \<Rightarrow> ([(''error'', JStr m)], 400)
                | Inl (OtherException cls m) \<Rightarrow> ([(''error'', JStr ''Internal server error'')], 500)
                | Inr d \<Rightarrow>
                    ([(''wallet_address'', JStr a),
                      (''is_active'', JBool active),
                      (''expiry_timestamp'', JInt expiry),
                      (''expiry_date'', JStr d),
                      (''remaining_seconds'', JInt remaining),
                      (''remaining_time'', JStr (format_duration remaining))], 200)),
           t\<lparr>invoked := invoked t @ [Op_is_subscription_active a, Op_get_subscription_expiry a,
                                        Op_get_remaining_time a],
             sent := sent t @ [isActive c, getExpiry c, getRemainingTime c]\<rparr>))))"
  by (simp add: get_subscription_status_def handle_errors_def bnd_def ret_def lift_def
        is_subscription_active_eval get_subscription_expiry_eval get_remaining_time_eval
        wrap_invalid_def error_body_def
      split: sum.splits exc.splits)

section \<open>The sample deployment, answered\<close>

lemma sample_accepts: "validate_address lower_spelling = (True, None)"
  by (simp add: validate_address_def lower_spelling_def startswith_def)

lemma sample_calls:
  "keccak_nibbles sample_world = sample_keccak"
  "call_bool sample_world before c = Inr True"
  "call_int sample_world before (getExpiry x) = Inr 1737216000"
  "call_int sample_world before (getRemainingTime x) = Inr 90000"
  by (simp_all add: sample_world_def sample_answer_def)

lemma format_duration_sample: "format_duration 90000 = ''1 day, 1 hour''"
  by (simp add: format_duration_def Let_def) (simp add: str_int_def dec_digits.simps digit_char_def)

lemma sample_status:
  assumes "validate_address a = (True, None)"
    and "to_checksum_address sample_keccak a = Inr checksum_spelling"
  shows "fst (get_subscription_status sample_world a start) =
     ([(''wallet_address'', JStr a),
       (''is_active'', JBool True),
       (''expiry_timestamp'', JInt 1737216000),
       (''expiry_date'', JStr ''2025-01-18 21:30:00 UTC''),
       (''remaining_seconds'', JInt 90000),
       (''remaining_time'', JStr ''1 day, 1 hour'')], 200)"
  unfolding accepted_status [OF assms(1)] sample_calls assms(2)
  by (simp add: sample_calls format_timestamp_sample format_duration_sample)

lemma sample_expiry:
  assumes "validate_address a = (True, None)"
    and "to_checksum_address sample_keccak a = Inr checksum_spelling"
  shows "fst (get_subscription_expiry_route sample_world a start) =
     ([(''wallet_address'', JStr a),
       (''expiry_timestamp'', JInt 1737216000),
       (''expiry_date'', JStr ''2025-01-18 21:30:00 UTC'')], 200)"
  unfolding accepted_expiry [OF assms(1)] sample_calls assms(2)
  by (simp add: sample_calls format_timestamp_sample)

lemma sample_remaining_any:
  assumes "validate_address a = (True, None)"
    and "to_checksum_address sample_keccak a = Inr checksum_spelling"
  shows "fst (get_remaining_time_route sample_world a start) =
     ([(''wallet_address'', JStr a),
       (''remaining_seconds'', JInt 90000),
       (''remaining_time'', JStr ''1 day, 1 hour'')], 200)"
  unfolding accepted_remaining [OF assms(1)] sample_calls assms(2)
  by (simp add: sample_calls format_duration_sample)

lemma sample_accepts_checksum: "validate_address checksum_spelling = (True, None)"
  by (simp add: validate_address_def checksum_spelling_def startswith_def)

lemma sample_same_address: "same_address lower_spelling checksum_spelling"
  by (simp add: same_address_def lower_spelling_def checksum_spelling_def lower_hex_def)

section \<open>Rejected addresses\<close>

text \<open>
  C6. For every address that fails the syntactic check (its length is not 42, or the prefix
  \<open>0x\<close> is missing) each of the three wallet routes answers 400 with a body that holds, under
  the key \<open>error\<close>, the message of the first failed check, and leaves the trace as it was:
  no reader method is entered and no remote call is sent.
\<close>

theorem rejected_before_reader:
  assumes "length a \<noteq> 42 \<or> \<not> prefix ''0x'' a"
  shows "let msg = (if a = [] then ''Address is required''
                    else if \<not> prefix ''0x'' a then ''Address must start with 0x''
                    else ''Address must be 42 characters long'')
         in get_subscription_status w a t = (([(''error'', JStr msg)], 400), t) \<and>
            get_subscription_expiry_route w a t = (([(''error'', JStr msg)], 400), t) \<and>
            get_remaining_time_route w a t = (([(''error'', JStr msg)], 400), t)"
proof -
  define msg where "msg = (if a = [] then ''Address is required''
                    else if \<not> prefix ''0x'' a then ''Address must start with 0x''
                    else ''Address must be 42 characters long'')"
  have "validate_address a = (False, Some msg)"
    using assms unfolding msg_def validate_address_def startswith_prefix by auto
  from rejected_route [OF this, of w t] show ?thesis
    unfolding msg_def [symmetric] Let_def error_body_def by simp
qed

theorem rejected_before_reader_witness:
  "get_subscription_status offline_world ''0x5aAeb6'' start =
     (([(''error'', JStr ''Address must be 42 characters long'')], 400), \<lparr>invoked = [], sent = []\<rparr>) \<and>
   get_subscription_expiry_route offline_world ''5aAeb6053F3E94C9b9A09f33669435E7Ef1BeAed00'' start =
     (([(''error'', JStr ''Address must start with 0x'')], 400), \<lparr>invoked = [], sent = []\<rparr>) \<and>
   get_remaining_time_route offline_world ''0x5aAeb6'' start =
     (([(''error'', JStr ''Address must be 42 characters long'')], 400), \<lparr>invoked = [], sent = []\<rparr>)"
  using rejected_before_reader [of "''0x5aAeb6''" offline_world start]
    rejected_before_reader [of "''5aAeb6053F3E94C9b9A09f33669435E7Ef1BeAed00''" offline_world start]
  by (simp add: start_def Let_def)

lemma non_hex_fails:
  assumes "\<exists>c \<in> set (drop 2 a). \<not> is_hex_digit c"
  shows "to_checksum_address h a = Inl (ValueError (''Unknown format '' @ a))"
  using assms by (auto simp: to_checksum_address_def list_all_iff)

text \<open>
  C7. For every 42-character address with the prefix \<open>0x\<close> and a non-hex character after
  it, the syntactic check accepts the address, the normalization of the reader fails, and
  each wallet route answers 400 with the message \<open>Invalid wallet address: \<close> followed by the
  address, which is none of the three messages of the syntactic check; the first reader
  method is entered and no remote call is sent.
\<close>

theorem non_hex_rejected_by_reader:
  assumes "prefix ''0x'' a" and "length a = 42" and "\<exists>c \<in> set (drop 2 a). \<not> is_hex_digit c"
  shows "validate_address a = (True, None) \<and>
         isl (to_checksum_address (keccak_nibbles w) a) \<and>
         get_subscription_status w a t =
           (([(''error'', JStr (''Invalid wallet address: '' @ a))], 400),
            t\<lparr>invoked := invoked t @ [Op_is_subscription_active a]\<rparr>) \<and>
         get_subscription_expiry_route w a t =
           (([(''error'', JStr (''Invalid wallet address: '' @ a))], 400),
            t\<lparr>invoked := invoked t @ [Op_get_subscription_expiry a]\<rparr>) \<and>
         get_remaining_time_route w a t =
           (([(''error'', JStr (''Invalid wallet address: '' @ a))], 400),
            t\<lparr>invoked := invoked t @ [Op_get_remaining_time a]\<rparr>) \<and>
         ''Invalid wallet address: '' @ a \<notin>
           {''Address is required'', ''Address must start with 0x'', ''Address must be 42 characters long''}"
proof -
  have v: "validate_address a = (True, None)"
    using assms(1,2) unfolding validate_address_def startswith_prefix by auto
  have f: "to_checksum_address (keccak_nibbles w) a = Inl (ValueError (''Unknown format '' @ a))"
    using assms(3) by (rule non_hex_fails)
  show ?thesis
    by (simp add: v f accepted_status [OF v] accepted_expiry [OF v] accepted_remaining [OF v])
qed

theorem non_hex_rejected_by_reader_witness:
  "validate_address ''0x5aAeb6053F3E94C9b9A09f33669435E7Ef1BeAeg'' = (True, None) \<and>
   get_subscription_status offline_world ''0x5aAeb6053F3E94C9b9A09f33669435E7Ef1BeAeg'' start =
     (([(''error'', JStr ''Invalid wallet address: 0x5aAeb6053F3E94C9b9A09f33669435E7Ef1BeAeg'')], 400),
      \<lparr>invoked = [Op_is_subscription_active ''0x5aAeb6053F3E94C9b9A09f33669435E7Ef1BeAeg''],
        sent = []\<rparr>)"
proof -
  have "\<exists>c \<in> set (drop 2 ''0x5aAeb6053F3E94C9b9A09f33669435E7Ef1BeAeg''). \<not> is_hex_digit c"
    by (simp add: is_hex_digit_def)
  from non_hex_rejected_by_reader [OF _ _ this, of offline_world start]
  show ?thesis by (simp add: start_def)
qed

section \<open>Successful answers\<close>

text \<open>
  C10. Each wallet route answers 200 whenever the address passes the syntactic check, the
  normalization succeeds, the remote reads of the route return and (where the route prints
  one) the expiry date can be printed; the body then holds, in its field \<open>wallet_address\<close>,
  the address string exactly as the caller sent it, while the remote calls carry the
  checksum form that the normalization returned. Conversely, whenever a wallet route
  answers 200, the field \<open>wallet_address\<close> is the caller's string and the calls carry the
  checksum form.
\<close>

theorem success_echoes_address:
  "(snd (fst (get_subscription_status w a t)) = 200 \<longrightarrow>
      map_of (fst (fst (get_subscription_status w a t))) ''wallet_address'' = Some (JStr a) \<and>
      (\<exists>c. to_checksum_address (keccak_nibbles w) a = Inr c \<and>
           sent (snd (get_subscription_status w a t)) =
             sent t @ [isActive c, getExpiry c, getRemainingTime c])) \<and>
   (snd (fst (get_subscription_expiry_route w a t)) = 200 \<longrightarrow>
      map_of (fst (fst (get_subscription_expiry_route w a t))) ''wallet_address'' = Some (JStr a) \<and>
      (\<exists>c. to_checksum_address (keccak_nibbles w) a = Inr c \<and>
           sent (snd (get_subscription_expiry_route w a t)) = sent t @ [getExpiry c])) \<and>
   (snd (fst (get_remaining_time_route w a t)) = 200 \<longrightarrow>
      map_of (fst (fst (get_remaining_time_route w a t))) ''wallet_address'' = Some (JStr a) \<and>
      (\<exists>c. to_checksum_address (keccak_nibbles w) a = Inr c \<and>
           sent (snd (get_remaining_time_route w a t)) = sent t @ [getRemainingTime c])) \<and>
   (prefix ''0x'' a \<and> length a = 42 \<and>
    to_checksum_address (keccak_nibbles w) a = Inr c \<and>
    call_bool w (sent t) (isActive c) = Inr active \<and>
    call_int w (sent t @ [isActive c]) (getExpiry c) = Inr expiry \<and>
    call_int w (sent t @ [isActive c, getExpiry c]) (getRemainingTime c) = Inr remaining \<and>
    format_timestamp w expiry = Inr expiry_date \<longrightarrow>
      get_subscription_status w a t =
        (([(''wallet_address'', JStr a),
           (''is_active'', JBool active),
           (''expiry_timestamp'', JInt expiry),
           (''expiry_date'', JStr expiry_date),
           (''remaining_seconds'', JInt remaining),
           (''remaining_time'', JStr (format_duration remaining))], 200),
         t\<lparr>invoked := invoked t @ [Op_is_subscription_active a, Op_get_subscription_expiry a,
                                      Op_get_remaining_time a],
           sent := sent t @ [isActive c, getExpiry c, getRemainingTime c]\<rparr>)) \<and>
   (prefix ''0x'' a \<and> length a = 42 \<and>
    to_checksum_address (keccak_nibbles w) a = Inr c \<and>
    call_int w (sent t) (getExpiry c) = Inr expiry \<and>
    format_timestamp w expiry = Inr expiry_date \<longrightarrow>
      get_subscription_expiry_route w a t =
        (([(''wallet_address'', JStr a),
           (''expiry_timestamp'', JInt expiry),
           (''expiry_date'', JStr expiry_date)], 200),
         t\<lparr>invoked := invoked t @ [Op_get_subscription_expiry a],
           sent := sent t @ [getExpiry c]\<rparr>)) \<and>
   (prefix ''0x'' a \<and> length a = 42 \<and>
    to_checksum_address (keccak_nibbles w) a = Inr c \<and>
    call_int w (sent t) (getRemainingTime c) = Inr remaining \<longrightarrow>
      get_remaining_time_route w a t =
        (([(''wallet_address'', JStr a),
           (''remaining_seconds'', JInt remaining),
           (''remaining_time'', JStr (format_duration remaining))], 200),
         t\<lparr>invoked := invoked t @ [Op_get_remaining_time a],
           sent := sent t @ [getRemainingTime c]\<rparr>))"
proof -
  have guarded:
   "(snd (fst (get_subscription_status w a t)) = 200 \<longrightarrow>
      map_of (fst (fst (get_subscription_status w a t))) ''wallet_address'' = Some (JStr a) \<and>
      (\<exists>c. to_checksum_address (keccak_nibbles w) a = Inr c \<and>
           sent (snd (get_subscription_status w a t)) =
             sent t @ [isActive c, getExpiry c, getRemainingTime c])) \<and>
    (snd (fst (get_subscription_expiry_route w a t)) = 200 \<longrightarrow>
      map_of (fst (fst (get_subscription_expiry_route w a t))) ''wallet_address'' = Some (JStr a) \<and>
      (\<exists>c. to_checksum_address (keccak_nibbles w) a = Inr c \<and>
           sent (snd (get_subscription_expiry_route w a t)) = sent t @ [getExpiry c])) \<and>
    (snd (fst (get_remaining_time_route w a t)) = 200 \<longrightarrow>
      map_of (fst (fst (get_remaining_time_route w a t))) ''wallet_address'' = Some (JStr a) \<and>
      (\<exists>c. to_checksum_address (keccak_nibbles w) a = Inr c \<and>
           sent (snd (get_remaining_time_route w a t)) = sent t @ [getRemainingTime c]))"
  proof (cases "validate_address a")
    case (Pair ok msg)
    show ?thesis
    proof (cases ok)
      case False
      with Pair have "validate_address a = (False, msg)" by simp
      from rejected_route [OF this, of w t] show ?thesis by simp
    next
      case True
      with Pair have v: "validate_address a = (True, msg)" by simp
      have 1: "snd (fst (get_subscription_status w a t)) = 200 \<longrightarrow>
        map_of (fst (fst (get_subscription_status w a t))) ''wallet_address'' = Some (JStr a) \<and>
        (\<exists>c. to_checksum_address (keccak_nibbles w) a = Inr c \<and>
             sent (snd (get_subscription_status w a t)) =
               sent t @ [isActive c, getExpiry c, getRemainingTime c])"
        unfolding accepted_status [OF v] by (simp split: sum.splits exc.splits)
      have 2: "snd (fst (get_subscription_expiry_route w a t)) = 200 \<longrightarrow>
        map_of (fst (fst (get_subscription_expiry_route w a t))) ''wallet_address'' = Some (JStr a) \<and>
        (\<exists>c. to_checksum_address (keccak_nibbles w) a = Inr c \<and>
             sent (snd (get_subscription_expiry_route w a t)) = sent t @ [getExpiry c])"
        unfolding accepted_expiry [OF v] by (simp split: sum.splits exc.splits)
      have 3: "snd (fst (get_remaining_time_route w a t)) = 200 \<longrightarrow>
        map_of (fst (fst (get_remaining_time_route w a t))) ''wallet_address'' = Some (JStr a) \<and>
        (\<exists>c. to_checksum_address (keccak_nibbles w) a = Inr c \<and>
             sent (snd (get_remaining_time_route w a t)) = sent t @ [getRemainingTime c])"
        unfolding accepted_remaining [OF v] by (simp split: sum.splits exc.splits)
      from 1 2 3 show ?thesis by blast
    qed
  qed
  have v: "validate_address a = (True, None)" if "prefix ''0x'' a" and "length a = 42"
    using that unfolding validate_address_def startswith_prefix by auto
  have s: "get_subscription_status w a t =
        (([(''wallet_address'', JStr a),
           (''is_active'', JBool active),
           (''expiry_timestamp'', JInt expiry),
           (''expiry_date'', JStr expiry_date),
           (''remaining_seconds'', JInt remaining),
           (''remaining_time'', JStr (format_duration remaining))], 200),
         t\<lparr>invoked := invoked t @ [Op_is_subscription_active a, Op_get_subscription_expiry a,
                                      Op_get_remaining_time a],
           sent := sent t @ [isActive c, getExpiry c, getRemainingTime c]\<rparr>)"
    if "prefix ''0x'' a" and "length a = 42"
      and "to_checksum_address (keccak_nibbles w) a = Inr c"
      and "call_bool w (sent t) (isActive c) = Inr active"
      and "call_int w (sent t @ [isActive c]) (getExpiry c) = Inr expiry"
      and "call_int w (sent t @ [isActive c, getExpiry c]) (getRemainingTime c) = Inr remaining"
      and "format_timestamp w expiry = Inr expiry_date"
    unfolding accepted_status [OF v [OF that(1,2)]] using that(3-7) by simp
  have e: "get_subscription_expiry_route w a t =
        (([(''wallet_address'', JStr a),
           (''expiry_timestamp'', JInt expiry),
           (''expiry_date'', JStr expiry_date)], 200),
         t\<lparr>invoked := invoked t @ [Op_get_subscription_expiry a],
           sent := sent t @ [getExpiry c]\<rparr>)"
    if "prefix ''0x'' a" and "length a = 42"
      and "to_checksum_address (keccak_nibbles w) a = Inr c"
      and "call_int w (sent t) (getExpiry c) = Inr expiry"
      and "format_timestamp w expiry = Inr expiry_date"
    unfolding accepted_expiry [OF v [OF that(1,2)]] using that(3-5) by simp
  have r: "get_remaining_time_route w a t =
        (([(''wallet_address'', JStr a),
           (''remaining_seconds'', JInt remaining),
           (''remaining_time'', JStr (format_duration remaining))], 200),
         t\<lparr>invoked := invoked t @ [Op_get_remaining_time a],
           sent := sent t @ [getRemainingTime c]\<rparr>)"
    if "prefix ''0x'' a" and "length a = 42"
      and "to_checksum_address (keccak_nibbles w) a = Inr c"
      and "call_int w (sent t) (getRemainingTime c) = Inr remaining"
    unfolding accepted_remaining [OF v [OF that(1,2)]] using that(3,4) by simp
  from guarded s e r show ?thesis by blast
qed

theorem success_echoes_address_witness:
  "get_subscription_status sample_world ''0x5aaeb6053f3e94c9b9a09f33669435e7ef1beaed'' start =
     (([(''wallet_address'', JStr ''0x5aaeb6053f3e94c9b9a09f33669435e7ef1beaed''),
        (''is_active'', JBool True),
        (''expiry_timestamp'', JInt 1737216000),
        (''expiry_date'', JStr ''2025-01-18 21:30:00 UTC''),
        (''remaining_seconds'', JInt 90000),
        (''remaining_time'', JStr ''1 day, 1 hour'')], 200),
      \<lparr>invoked = [Op_is_subscription_active ''0x5aaeb6053f3e94c9b9a09f33669435e7ef1beaed'',
                  Op_get_subscription_expiry ''0x5aaeb6053f3e94c9b9a09f33669435e7ef1beaed'',
                  Op_get_remaining_time ''0x5aaeb6053f3e94c9b9a09f33669435e7ef1beaed''],
        sent = [isActive ''0x5aAeb6053F3E94C9b9A09f33669435E7Ef1BeAed'',
                getExpiry ''0x5aAeb6053F3E94C9b9A09f33669435E7Ef1BeAed'',
                getRemainingTime ''0x5aAeb6053F3E94C9b9A09f33669435E7Ef1BeAed'']\<rparr>) \<and>
   get_subscription_expiry_route sample_world ''0x5aaeb6053f3e94c9b9a09f33669435e7ef1beaed'' start =
     (([(''wallet_address'', JStr ''0x5aaeb6053f3e94c9b9a09f33669435e7ef1beaed''),
        (''expiry_timestamp'', JInt 1737216000),
        (''expiry_date'', JStr ''2025-01-18 21:30:00 UTC'')], 200),
      \<lparr>invoked = [Op_get_subscription_expiry ''0x5aaeb6053f3e94c9b9a09f33669435e7ef1beaed''],
        sent = [getExpiry ''0x5aAeb6053F3E94C9b9A09f33669435E7Ef1BeAed'']\<rparr>) \<and>
   get_remaining_time_route sample_world ''0x5aaeb6053f3e94c9b9a09f33669435e7ef1beaed'' start =
     (([(''wallet_address'', JStr ''0x5aaeb6053f3e94c9b9a09f33669435e7ef1beaed''),
        (''remaining_seconds'', JInt 90000),
        (''remaining_time'', JStr ''1 day, 1 hour'')], 200),
      \<lparr>invoked = [Op_get_remaining_time ''0x5aaeb6053f3e94c9b9a09f33669435e7ef1beaed''],
        sent = [getRemainingTime ''0x5aAeb6053F3E94C9b9A09f33669435E7Ef1BeAed'']\<rparr>) \<and>
   map_of (fst (fst (get_subscription_status sample_world
        ''0x5aaeb6053f3e94c9b9a09f33669435e7ef1beaed'' start))) ''wallet_address'' =
     Some (JStr ''0x5aaeb6053f3e94c9b9a09f33669435e7ef1beaed'')"
proof -
  have p: "prefix ''0x'' lower_spelling" and l: "length lower_spelling = 42"
    by (simp_all add: lower_spelling_def)
  have c: "to_checksum_address (keccak_nibbles sample_world) lower_spelling = Inr checksum_spelling"
    using sample_checksum by (simp add: sample_calls)
  have d: "format_duration 90000 = ''1 day, 1 hour''" by (rule format_duration_sample)
  note inst = success_echoes_address [of sample_world lower_spelling start checksum_spelling True
      1737216000 90000 "''2025-01-18 21:30:00 UTC''"]
  from inst p l c format_timestamp_sample
  have "get_subscription_status sample_world lower_spelling start =
     (([(''wallet_address'', JStr lower_spelling),
        (''is_active'', JBool True),
        (''expiry_timestamp'', JInt 1737216000),
        (''expiry_date'', JStr ''2025-01-18 21:30:00 UTC''),
        (''remaining_seconds'', JInt 90000),
        (''remaining_time'', JStr (format_duration 90000))], 200),
      start\<lparr>invoked := invoked start @ [Op_is_subscription_active lower_spelling,
                  Op_get_subscription_expiry lower_spelling, Op_get_remaining_time lower_spelling],
        sent := sent start @ [isActive checksum_spelling, getExpiry checksum_spelling,
                getRemainingTime checksum_spelling]\<rparr>)"
    by (simp add: sample_calls)
  moreover from inst p l c format_timestamp_sample
  have "get_subscription_expiry_route sample_world lower_spelling start =
     (([(''wallet_address'', JStr lower_spelling),
        (''expiry_timestamp'', JInt 1737216000),
        (''expiry_date'', JStr ''2025-01-18 21:30:00 UTC'')], 200),
      start\<lparr>invoked := invoked start @ [Op_get_subscription_expiry lower_spelling],
        sent := sent start @ [getExpiry checksum_spelling]\<rparr>)"
    by (simp add: sample_calls)
  moreover from inst p l c
  have "get_remaining_time_route sample_world lower_spelling start =
     (([(''wallet_address'', JStr lower_spelling),
        (''remaining_seconds'', JInt 90000),
        (''remaining_time'', JStr (format_duration 90000))], 200),
      start\<lparr>invoked := invoked start @ [Op_get_remaining_time lower_spelling],
        sent := sent start @ [getRemainingTime checksum_spelling]\<rparr>)"
    by (simp add: sample_calls)
  ultimately show ?thesis
    by (simp add: d start_def lower_spelling_def checksum_spelling_def)
qed

section \<open>The statistics route\<close>

lemma bnd_remote_int:
  "bnd (remote_int w c) f t =
     (case call_int w (sent t) c of
        Inl e \<Rightarrow> (Inl e, t\<lparr>sent := sent t @ [c]\<rparr>)
      | Inr v \<Rightarrow> f v (t\<lparr>sent := sent t @ [c]\<rparr>))"
  by (simp add: bnd_def remote_int_def split: sum.splits)

lemma bnd_lift:
  "bnd (lift r) f t = (case r of Inl e \<Rightarrow> (Inl e, t) | Inr v \<Rightarrow> f v t)"
  by (simp add: bnd_def lift_def split: sum.splits)

lemma bnd_enter: "bnd (enter opn) f t = f () (t\<lparr>invoked := invoked t @ [opn]\<rparr>)"
  by (simp add: bnd_def enter_def)

lemma stats_success_calls:
  assumes "fst (get_contract_stats w t) = Inr b"
  shows "\<not> some_call_fails w (sent t) stats_calls"
  using assms
  by (simp add: get_contract_stats_def bnd_enter try_except_def raise_def bnd_remote_int bnd_lift
        stats_calls_def ret_def
      split: sum.splits)

text \<open>
  C8. Whenever one of the remote reads of \<open>get_contract_stats\<close> raises, or the reader fails
  in any other way, the route \<open>/stats\<close> answers 500 with the body
  \<open>{"error": "Internal server error"}\<close>: a constant, which holds nothing of the exception.
\<close>

theorem stats_failure_is_generic:
  assumes "some_call_fails w (sent t) stats_calls \<or> isl (fst (get_contract_stats w t))"
  shows "fst (get_contract_stats_route w t) = ([(''error'', JStr ''Internal server error'')], 500)"
proof -
  have "isl (fst (get_contract_stats w t))"
  proof (cases "fst (get_contract_stats w t)")
    case (Inl e)
    then show ?thesis by simp
  next
    case (Inr b)
    then have "\<not> some_call_fails w (sent t) stats_calls" by (rule stats_success_calls)
    with assms Inr show ?thesis by simp
  qed
  then obtain e where "fst (get_contract_stats w t) = Inl e" by (auto simp: isl_def)
  then show ?thesis
    by (cases "get_contract_stats w t") (simp add: get_contract_stats_route_def error_body_def)
qed

theorem stats_failure_is_generic_witness:
  "some_call_fails offline_world (sent start) stats_calls \<and>
   fst (get_contract_stats_route offline_world start) =
     ([(''error'', JStr ''Internal server error'')], 500)"
proof -
  have f: "some_call_fails offline_world (sent start) stats_calls"
    by (simp add: stats_calls_def offline_world_def)
  then show ?thesis using stats_failure_is_generic [of offline_world start] by simp
qed

section \<open>Failures of the reader\<close>

text \<open>
  C3, as first stated: every operation of the reader returns a value or fails with
  \<open>InvalidAddress\<close> or \<open>RemoteCallFailure\<close>, never with a raw transport error. With the node
  unreachable, \<open>is_subscription_active\<close> on a well-formed address fails with the
  \<open>ConnectionError\<close> of the transport itself, which is neither.
\<close>

theorem raw_transport_error_counterexample:
  "to_checksum_address (keccak_nibbles offline_world) checksum_spelling = Inr checksum_spelling \<and>
   fst (is_subscription_active offline_world checksum_spelling start) =
     Inl (OtherException ''ConnectionError'' ''Connection refused'') \<and>
   OtherException ''ConnectionError'' ''Connection refused'' \<notin> range InvalidAddress \<and>
   OtherException ''ConnectionError'' ''Connection refused'' \<notin> range RemoteCallFailure"
proof -
  have c: "to_checksum_address (keccak_nibbles offline_world) checksum_spelling = Inr checksum_spelling"
    using sample_checksum_fixed by (simp add: offline_world_def sample_world_def)
  have "fst (is_subscription_active offline_world checksum_spelling start) =
     Inl (OtherException ''ConnectionError'' ''Connection refused'')"
    unfolding is_subscription_active_eval c
    by (simp add: wrap_invalid_def offline_world_def)
  with c show ?thesis by (auto simp: InvalidAddress_def RemoteCallFailure_def)
qed

lemma stats_failure_cause:
  assumes "fst (get_contract_stats w t) = Inl e"
  shows "\<exists>cause. e = RemoteCallFailure cause \<and> raised_among w (sent t) stats_calls cause"
  using assms
  by (simp add: get_contract_stats_def bnd_enter try_except_def raise_def bnd_remote_int bnd_lift
        stats_calls_def ret_def RemoteCallFailure_def
      split: sum.splits)
     auto

text \<open>
  C3, amended. \<open>get_contract_stats\<close> returns a value or fails with \<open>RemoteCallFailure\<close>
  wrapping the cause, the exception that one of its reads, or the conversion of a value
  read, raised. Each wallet operation fails with \<open>InvalidAddress\<close> for a bad address, one
  that the normalization rejects; for an address that normalizes it returns the value of
  its remote read, and when that read raises an exception that is not a \<open>ValueError\<close>
  it fails with that very exception, unwrapped.
\<close>

theorem reader_failures:
  "(case fst (get_contract_stats w t) of
      Inr stats \<Rightarrow> True
    | Inl e \<Rightarrow> \<exists>cause. e = RemoteCallFailure cause \<and> raised_among w (sent t) stats_calls cause) \<and>
   (isl (to_checksum_address (keccak_nibbles w) a) \<longrightarrow>
      fst (is_subscription_active w a t) = Inl (InvalidAddress a) \<and>
      fst (get_subscription_expiry w a t) = Inl (InvalidAddress a) \<and>
      fst (get_remaining_time w a t) = Inl (InvalidAddress a)) \<and>
   (to_checksum_address (keccak_nibbles w) a = Inr c \<longrightarrow>
      (call_bool w (sent t) (isActive c) = Inr active \<longrightarrow>
         fst (is_subscription_active w a t) = Inr active) \<and>
      (call_int w (sent t) (getExpiry c) = Inr n \<longrightarrow>
         fst (get_subscription_expiry w a t) = Inr n) \<and>
      (call_int w (sent t) (getRemainingTime c) = Inr n \<longrightarrow>
         fst (get_remaining_time w a t) = Inr n) \<and>
      (call_bool w (sent t) (isActive c) = Inl (OtherException cls m) \<longrightarrow>
         fst (is_subscription_active w a t) = Inl (OtherException cls m)) \<and>
      (call_int w (sent t) (getExpiry c) = Inl (OtherException cls m) \<longrightarrow>
         fst (get_subscription_expiry w a t) = Inl (OtherException cls m)) \<and>
      (call_int w (sent t) (getRemainingTime c) = Inl (OtherException cls m) \<longrightarrow>
         fst (get_remaining_time w a t) = Inl (OtherException cls m)))"
proof -
  have s: "case fst (get_contract_stats w t) of
      Inr stats \<Rightarrow> True
    | Inl e \<Rightarrow> \<exists>cause. e = RemoteCallFailure cause \<and> raised_among w (sent t) stats_calls cause"
    using stats_failure_cause [of w t] by (simp split: sum.splits)
  have b: "isl (to_checksum_address (keccak_nibbles w) a) \<longrightarrow>
      fst (is_subscription_active w a t) = Inl (InvalidAddress a) \<and>
      fst (get_subscription_expiry w a t) = Inl (InvalidAddress a) \<and>
      fst (get_remaining_time w a t) = Inl (InvalidAddress a)"
    unfolding is_subscription_active_eval get_subscription_expiry_eval get_remaining_time_eval
    by (auto simp: InvalidAddress_def isl_def)
  have g: "to_checksum_address (keccak_nibbles w) a = Inr c \<longrightarrow>
      (call_bool w (sent t) (isActive c) = Inr active \<longrightarrow>
         fst (is_subscription_active w a t) = Inr active) \<and>
      (call_int w (sent t) (getExpiry c) = Inr n \<longrightarrow>
         fst (get_subscription_expiry w a t) = Inr n) \<and>
      (call_int w (sent t) (getRemainingTime c) = Inr n \<longrightarrow>
         fst (get_remaining_time w a t) = Inr n) \<and>
      (call_bool w (sent t) (isActive c) = Inl (OtherException cls m) \<longrightarrow>
         fst (is_subscription_active w a t) = Inl (OtherException cls m)) \<and>
      (call_int w (sent t) (getExpiry c) = Inl (OtherException cls m) \<longrightarrow>
         fst (get_subscription_expiry w a t) = Inl (OtherException cls m)) \<and>
      (call_int w (sent t) (getRemainingTime c) = Inl (OtherException cls m) \<longrightarrow>
         fst (get_remaining_time w a t) = Inl (OtherException cls m))"
    unfolding is_subscription_active_eval get_subscription_expiry_eval get_remaining_time_eval
    by (simp add: wrap_invalid_def)
  from s b g show ?thesis by blast
qed

theorem reader_failures_witness:
  "fst (get_contract_stats offline_world start) =
     Inl (RemoteCallFailure (OtherException ''ConnectionError'' ''Connection refused'')) \<and>
   fst (get_remaining_time sample_world ''0x5aAeb6053F3E94C9b9A09f33669435E7Ef1BeAeg'' start) =
     Inl (InvalidAddress ''0x5aAeb6053F3E94C9b9A09f33669435E7Ef1BeAeg'') \<and>
   fst (is_subscription_active sample_world checksum_spelling start) = Inr True \<and>
   fst (get_subscription_expiry offline_world checksum_spelling start) =
     Inl (OtherException ''ConnectionError'' ''Connection refused'')"
proof -
  have f: "isl (fst (get_contract_stats offline_world start))"
    using stats_success_calls [of offline_world start]
    by (cases "fst (get_contract_stats offline_world start)")
       (simp_all add: stats_calls_def offline_world_def)
  have only: "raised_among offline_world (sent start) stats_calls cause \<Longrightarrow>
      cause = OtherException ''ConnectionError'' ''Connection refused''" for cause
    by (auto simp: stats_calls_def offline_world_def)
  obtain e where e: "fst (get_contract_stats offline_world start) = Inl e"
    using f by (auto simp: isl_def)
  from reader_failures [of offline_world start checksum_spelling checksum_spelling True 0
      "''ConnectionError''" "''Connection refused''", THEN conjunct1]
  have "\<exists>cause. e = RemoteCallFailure cause \<and> raised_among offline_world (sent start) stats_calls cause"
    by (simp add: e)
  then obtain cause where "e = RemoteCallFailure cause"
    and "raised_among offline_world (sent start) stats_calls cause" by blast
  with only [of cause] e
  have 1: "fst (get_contract_stats offline_world start) =
     Inl (RemoteCallFailure (OtherException ''ConnectionError'' ''Connection refused''))"
    by simp
  have bad: "isl (to_checksum_address (keccak_nibbles sample_world)
               ''0x5aAeb6053F3E94C9b9A09f33669435E7Ef1BeAeg'')"
    by (simp add: to_checksum_address_def is_hex_digit_def)
  have 2: "fst (get_remaining_time sample_world ''0x5aAeb6053F3E94C9b9A09f33669435E7Ef1BeAeg'' start) =
     Inl (InvalidAddress ''0x5aAeb6053F3E94C9b9A09f33669435E7Ef1BeAeg'')"
    using reader_failures [of sample_world start "''0x5aAeb6053F3E94C9b9A09f33669435E7Ef1BeAeg''"] bad
    by blast
  have cs: "to_checksum_address (keccak_nibbles sample_world) checksum_spelling = Inr checksum_spelling"
    using sample_checksum_fixed by (simp add: sample_world_def)
  have co: "to_checksum_address (keccak_nibbles offline_world) checksum_spelling = Inr checksum_spelling"
    using sample_checksum_fixed by (simp add: offline_world_def sample_world_def)
  have 3: "fst (is_subscription_active sample_world checksum_spelling start) = Inr True"
    using reader_failures [of sample_world start checksum_spelling checksum_spelling True] cs
    by (simp add: sample_world_def)
  have 4: "fst (get_subscription_expiry offline_world checksum_spelling start) =
     Inl (OtherException ''ConnectionError'' ''Connection refused'')"
    using reader_failures [of offline_world start checksum_spelling checksum_spelling _ _
        "''ConnectionError''" "''Connection refused''"] co
    by (simp add: offline_world_def)
  from 1 2 3 4 show ?thesis by blast
qed

section \<open>Two spellings of one address\<close>

lemma is_hex_lower: "is_hex_digit (lower_hex c) = is_hex_digit c"
  by (auto simp: is_hex_digit_def lower_hex_def)

lemma same_address_checksum:
  assumes "same_address a1 a2"
  shows "(\<exists>c. to_checksum_address h a1 = Inr c \<and> to_checksum_address h a2 = Inr c) \<or>
         (isl (to_checksum_address h a1) \<and> isl (to_checksum_address h a2))"
proof -
  from assms have "drop 2 (map lower_hex a1) = drop 2 (map lower_hex a2)"
    by (simp add: same_address_def)
  then have l: "map lower_hex (drop 2 a1) = map lower_hex (drop 2 a2)"
    by (simp add: drop_map)
  have "list_all is_hex_digit (drop 2 a1) = list_all is_hex_digit (map lower_hex (drop 2 a1))"
    by (simp add: list_all_iff is_hex_lower)
  also have "\<dots> = list_all is_hex_digit (drop 2 a2)"
    unfolding l by (simp add: list_all_iff is_hex_lower)
  finally have "list_all is_hex_digit (drop 2 a1) = list_all is_hex_digit (drop 2 a2)" .
  with assms l show ?thesis
    by (simp add: same_address_def to_checksum_address_def startswith_prefix Let_def)
qed

lemma same_address_accepted:
  "same_address a1 a2 \<Longrightarrow> validate_address a1 = (True, None) \<and> validate_address a2 = (True, None)"
  unfolding same_address_def validate_address_def startswith_prefix by auto

lemma remaining_same:
  assumes "same_address a1 a2"
  shows "snd (fst (get_remaining_time_route w a1 t)) = snd (fst (get_remaining_time_route w a2 t)) \<and>
         sent (snd (get_remaining_time_route w a1 t)) = sent (snd (get_remaining_time_route w a2 t)) \<and>
         same_but_echo a1 a2 (fst (fst (get_remaining_time_route w a1 t)))
                             (fst (fst (get_remaining_time_route w a2 t)))"
proof -
  from same_address_accepted [OF assms]
  have v1: "validate_address a1 = (True, None)" and v2: "validate_address a2 = (True, None)"
    by simp_all
  from same_address_checksum [OF assms, of "keccak_nibbles w"] show ?thesis
    unfolding accepted_remaining [OF v1] accepted_remaining [OF v2]
    by (auto simp: same_but_echo_def isl_def split: sum.splits exc.splits)
qed

lemma expiry_same:
  assumes "same_address a1 a2"
  shows "snd (fst (get_subscription_expiry_route w a1 t)) = snd (fst (get_subscription_expiry_route w a2 t)) \<and>
         sent (snd (get_subscription_expiry_route w a1 t)) = sent (snd (get_subscription_expiry_route w a2 t)) \<and>
         same_but_echo a1 a2 (fst (fst (get_subscription_expiry_route w a1 t)))
                             (fst (fst (get_subscription_expiry_route w a2 t)))"
proof -
  from same_address_accepted [OF assms]
  have v1: "validate_address a1 = (True, None)" and v2: "validate_address a2 = (True, None)"
    by simp_all
  from same_address_checksum [OF assms, of "keccak_nibbles w"] show ?thesis
    unfolding accepted_expiry [OF v1] accepted_expiry [OF v2]
    by (auto simp: same_but_echo_def isl_def split: sum.splits exc.splits)
qed

lemma status_same:
  assumes "same_address a1 a2"
  shows "snd (fst (get_subscription_status w a1 t)) = snd (fst (get_subscription_status w a2 t)) \<and>
         sent (snd (get_subscription_status w a1 t)) = sent (snd (get_subscription_status w a2 t)) \<and>
         same_but_echo a1 a2 (fst (fst (get_subscription_status w a1 t)))
                             (fst (fst (get_subscription_status w a2 t)))"
proof -
  from same_address_accepted [OF assms]
  have v1: "validate_address a1 = (True, None)" and v2: "validate_address a2 = (True, None)"
    by simp_all
  from same_address_checksum [OF assms, of "keccak_nibbles w"] show ?thesis
    unfolding accepted_status [OF v1] accepted_status [OF v2]
    by (auto simp: same_but_echo_def isl_def split: sum.splits exc.splits)
qed

text \<open>
  C1, as first stated: two spellings of one address that differ only in the case of the
  hex letters get identical answers, status code and body, from the three wallet routes.
  On the sample deployment both spellings are answered with 200, and the bodies differ,
  each holding the spelling its caller sent.
\<close>

theorem spellings_counterexample:
  "same_address lower_spelling checksum_spelling \<and>
   fst (get_subscription_status sample_world lower_spelling start) \<noteq>
     fst (get_subscription_status sample_world checksum_spelling start) \<and>
   fst (get_subscription_expiry_route sample_world lower_spelling start) \<noteq>
     fst (get_subscription_expiry_route sample_world checksum_spelling start) \<and>
   fst (get_remaining_time_route sample_world lower_spelling start) \<noteq>
     fst (get_remaining_time_route sample_world checksum_spelling start)"
proof -
  have d: "lower_spelling \<noteq> checksum_spelling"
    by (simp add: lower_spelling_def checksum_spelling_def)
  show ?thesis
    unfolding sample_status [OF sample_accepts sample_checksum]
      sample_status [OF sample_accepts_checksum sample_checksum_fixed]
      sample_expiry [OF sample_accepts sample_checksum]
      sample_expiry [OF sample_accepts_checksum sample_checksum_fixed]
      sample_remaining_any [OF sample_accepts sample_checksum]
      sample_remaining_any [OF sample_accepts_checksum sample_checksum_fixed]
    using d sample_same_address by simp
qed

text \<open>
  C1, amended. For two 42-character spellings of one address, both with the prefix \<open>0x\<close>
  and equal up to the case of the hex letters, each wallet route answers with the same
  status code after the same remote calls, and with bodies that agree except where the
  body quotes the spelling of its caller: the field \<open>wallet_address\<close> of a successful answer
  and the message \<open>Invalid wallet address: \<close> of a rejected one.
\<close>

theorem spellings_agree:
  assumes "same_address a1 a2"
  shows "snd (fst (get_subscription_status w a1 t)) = snd (fst (get_subscription_status w a2 t)) \<and>
         sent (snd (get_subscription_status w a1 t)) = sent (snd (get_subscription_status w a2 t)) \<and>
         same_but_echo a1 a2 (fst (fst (get_subscription_status w a1 t)))
                             (fst (fst (get_subscription_status w a2 t))) \<and>
         snd (fst (get_subscription_expiry_route w a1 t)) = snd (fst (get_subscription_expiry_route w a2 t)) \<and>
         sent (snd (get_subscription_expiry_route w a1 t)) = sent (snd (get_subscription_expiry_route w a2 t)) \<and>
         same_but_echo a1 a2 (fst (fst (get_subscription_expiry_route w a1 t)))
                             (fst (fst (get_subscription_expiry_route w a2 t))) \<and>
         snd (fst (get_remaining_time_route w a1 t)) = snd (fst (get_remaining_time_route w a2 t)) \<and>
         sent (snd (get_remaining_time_route w a1 t)) = sent (snd (get_remaining_time_route w a2 t)) \<and>
         same_but_echo a1 a2 (fst (fst (get_remaining_time_route w a1 t)))
                             (fst (fst (get_remaining_time_route w a2 t)))"
  using status_same [OF assms, of w t] expiry_same [OF assms, of w t] remaining_same [OF assms, of w t]
  by blast

theorem spellings_agree_witness:
  "same_address ''0x5aaeb6053f3e94c9b9a09f33669435e7ef1beaed'' ''0x5aAeb6053F3E94C9b9A09f33669435E7Ef1BeAed'' \<and>
   snd (fst (get_subscription_status sample_world ''0x5aaeb6053f3e94c9b9a09f33669435e7ef1beaed'' start)) =
   snd (fst (get_subscription_status sample_world ''0x5aAeb6053F3E94C9b9A09f33669435E7Ef1BeAed'' start)) \<and>
   same_but_echo ''0x5aaeb6053f3e94c9b9a09f33669435e7ef1beaed'' ''0x5aAeb6053F3E94C9b9A09f33669435E7Ef1BeAed''
     (fst (fst (get_subscription_status sample_world ''0x5aaeb6053f3e94c9b9a09f33669435e7ef1beaed'' start)))
     (fst (fst (get_subscription_status sample_world ''0x5aAeb6053F3E94C9b9A09f33669435E7Ef1BeAed'' start)))"
proof -
  have s: "same_address ''0x5aaeb6053f3e94c9b9a09f33669435e7ef1beaed''
             ''0x5aAeb6053F3E94C9b9A09f33669435E7Ef1BeAed''"
    using sample_same_address by (simp add: lower_spelling_def checksum_spelling_def)
  from spellings_agree [OF s, of sample_world start] s show ?thesis by blast
qed

section \<open>The timestamp format\<close>

lemma civil_from_days_10000: "civil_from_days 2932897 = (10000, 1, 1)"
  unfolding civil_from_days_def Let_def by simp

text \<open>
  C2. The claim has \<open>format_timestamp\<close> print the UTC date and time of every nonzero
  timestamp. The code prints the local time of the host and appends the letters \<open>UTC\<close>:
  on a host five and a half hours ahead of UTC the timestamp 1737216000, which is
  2025-01-18 16:00:00 in UTC, is printed as 21:30:00. A timestamp in the year 10000
  is not printed at all: \<open>fromtimestamp\<close> raises.
\<close>

theorem format_timestamp_prints_local_time:
  "format_timestamp sample_world 1737216000 = Inr ''2025-01-18 21:30:00 UTC'' \<and>
   format_timestamp (sample_world\<lparr>utcoffset := (\<lambda>timestamp. 0)\<rparr>) 1737216000 =
     Inr ''2025-01-18 16:00:00 UTC'' \<and>
   format_timestamp (sample_world\<lparr>utcoffset := (\<lambda>timestamp. 0)\<rparr>) 253402300800 =
     Inl (ValueError ''year is out of range'')"
proof -
  have t: "fromtimestamp (sample_world\<lparr>utcoffset := (\<lambda>timestamp. 0)\<rparr>) 1737216000 =
          Inr (2025, 1, 18, 16, 0, 0)"
    unfolding fromtimestamp_def Let_def by (simp add: civil_from_days_sample)
  have s: "strftime (2025, 1, 18, 16, 0, 0) = ''2025-01-18 16:00:00 UTC''"
    unfolding strftime_def pad_int_def str_int_def
    by (simp add: dec_digits.simps digit_char_def)
  have r: "fromtimestamp (sample_world\<lparr>utcoffset := (\<lambda>timestamp. 0)\<rparr>) 253402300800 =
          Inl (ValueError ''year is out of range'')"
    unfolding fromtimestamp_def Let_def by (simp add: civil_from_days_10000 sample_world_def)
  have "format_timestamp (sample_world\<lparr>utcoffset := (\<lambda>timestamp. 0)\<rparr>) 1737216000 =
          Inr ''2025-01-18 16:00:00 UTC''"
    by (simp add: format_timestamp_def t s)
  moreover have "format_timestamp (sample_world\<lparr>utcoffset := (\<lambda>timestamp. 0)\<rparr>) 253402300800 =
          Inl (ValueError ''year is out of range'')"
    by (simp add: format_timestamp_def r)
  ultimately show ?thesis using format_timestamp_sample by simp
qed

end
